theory Spec2Isabelle
  imports Complex_Main "HOL-Library.Sublist"
begin

section \<open>The typing speed tester\<close>

text \<open>
  A shallow embedding of \<^verbatim>\<open>src/minipython.py\<close>, class \<^verbatim>\<open>TypingTester\<close>.

  Conventions of the embedding.
  \<^item> Python floats (clock readings, elapsed time, WPM, accuracy) are exact reals; the
    literal \<^verbatim>\<open>1e-9\<close> is the real \<open>1 / 10 ^ 9\<close>. Rounding of binary floating
    point is not modelled.
  \<^item> Every call of \<^verbatim>\<open>time.time()\<close> is a parameter of the function making it.
  \<^item> Python's truth test of \<^verbatim>\<open>self.start_time\<close> is \<open>truthy\<close>: \<^verbatim>\<open>None\<close> and
    \<^verbatim>\<open>0.0\<close> are both false.
  \<^item> The true division \<^verbatim>\<open>/\<close> raises \<^verbatim>\<open>ZeroDivisionError\<close> on a zero divisor; it
    is \<open>py_truediv\<close>, with the error as a value.
  \<^item> A label shows a number formatted with two decimals; the model keeps the number.
  \<^item> A message box is the value \<open>popup\<close> that the callback returns beside the state.
\<close>

subsection \<open>Data\<close>

definition SAMPLE_TEXTS :: "string list" where
  "SAMPLE_TEXTS =
    [''The quick brown fox jumps over the lazy dog.'',
     ''Typing is a skill that improves with practice and patience.'',
     ''Practice makes perfect, so keep typing and track your progress.'',
     ''Python is a great language for building small tools and utilities.'',
     ''A journey of a thousand miles begins with a single step.'',
     ''Consistency and focus help you improve your typing speed and accuracy.'']"

text \<open>
  The fields of \<^verbatim>\<open>TypingTester\<close> that the callbacks read or write. \<open>sample_text\<close>
  and \<open>input_entry\<close> are the contents of the two text widgets; the three labels hold the
  numbers they display.
\<close>

record tester =
  start_time :: "real option"
  end_time :: "real option"
  running :: bool
  sample :: string
  sample_text :: string
  input_entry :: string
  time_label :: real
  wpm_label :: real
  acc_label :: real

datatype error = ZeroDivisionError

text \<open>
  \<open>Info\<close> is \<^verbatim>\<open>messagebox.showinfo("Info", "Start typing first ...")\<close>, the early
  return of \<^verbatim>\<open>finish\<close>; \<open>Results\<close> is the results box with elapsed seconds, WPM
  and accuracy.
\<close>

datatype popup = Info | Results real real real

text \<open>The local variables of \<^verbatim>\<open>finish\<close> after line 146.\<close>

record locals =
  elapsed :: real
  typed :: string
  correct_chars :: nat
  total_typed :: nat
  minutes :: real
  wpm :: real
  accuracy :: real

subsection \<open>Helpers of the Python semantics\<close>

definition newline :: char where
  "newline = CHR 0x0A"

definition truthy :: "real option \<Rightarrow> bool" where
  "truthy v = (case v of None \<Rightarrow> False | Some t \<Rightarrow> t \<noteq> 0)"

definition py_truediv :: "real \<Rightarrow> real \<Rightarrow> error + real" where
  "py_truediv a b = (if b = 0 then Inl ZeroDivisionError else Inr (a / b))"

text \<open>\<^verbatim>\<open>str.rstrip('\n')\<close>: every newline at the end is dropped.\<close>

definition rstrip_newline :: "string \<Rightarrow> string" where
  "rstrip_newline xs = rev (dropWhile (\<lambda>c. c = newline) (rev xs))"

text \<open>
  \<^verbatim>\<open>Text.get('1.0', tk.END)\<close>: the contents of the widget followed by the newline
  that Tk keeps at the end of every text widget.
\<close>

definition text_get :: "string \<Rightarrow> string" where
  "text_get contents = contents @ [newline]"

subsection \<open>The methods\<close>

definition get_typed_text :: "tester \<Rightarrow> string" where
  "get_typed_text s = rstrip_newline (text_get (input_entry s))"

text \<open>
  Lines 135 to 138, the loop \<^verbatim>\<open>for i, ch in enumerate(typed)\<close>: \<open>i\<close> is the index,
  the list is what remains of \<^verbatim>\<open>typed\<close>, \<open>acc\<close> is \<^verbatim>\<open>correct_chars\<close>. The
  \<^verbatim>\<open>and\<close> is short-circuit, so \<^verbatim>\<open>self.sample[i]\<close> is only read in range.
\<close>

fun count_loop :: "string \<Rightarrow> nat \<Rightarrow> string \<Rightarrow> nat \<Rightarrow> nat" where
  "count_loop smp i [] acc = acc"
| "count_loop smp i (ch # rest) acc =
     count_loop smp (Suc i) rest
       (if i < length smp then (if ch = smp ! i then Suc acc else acc) else acc)"

text \<open>
  Lines 131 to 146 of \<^verbatim>\<open>finish\<close>, run on the state in which \<^verbatim>\<open>end_time\<close> is
  already the clock reading \<open>now\<close>.
\<close>

definition finish_locals :: "tester \<Rightarrow> real \<Rightarrow> error + locals" where
  "finish_locals s now =
    (let el = (if truthy (start_time s) then now - the (start_time s) else 0);
         ty = get_typed_text s;
         cc = count_loop (sample s) 0 ty 0;
         tt = length ty
     in case (if el > 0 then py_truediv el 60 else Inr (1 / 10 ^ 9)) of
          Inl e \<Rightarrow> Inl e
        | Inr mi \<Rightarrow>
       (case py_truediv (real cc) 5 of
          Inl e \<Rightarrow> Inl e
        | Inr wds \<Rightarrow>
       (case py_truediv wds mi of
          Inl e \<Rightarrow> Inl e
        | Inr w \<Rightarrow>
       (case (if tt > 0
              then (case py_truediv (real cc) (real tt) of
                      Inl e \<Rightarrow> Inl e
                    | Inr q \<Rightarrow> Inr (q * 100))
              else Inr 0) of
          Inl e \<Rightarrow> Inl e
        | Inr ac \<Rightarrow>
            Inr \<lparr>elapsed = el, typed = ty, correct_chars = cc, total_typed = tt,
                 minutes = mi, wpm = w, accuracy = ac\<rparr>))))"

definition finish :: "tester \<Rightarrow> real \<Rightarrow> error + (tester \<times> popup)" where
  "finish s now =
    (if \<not> running s \<and> \<not> truthy (start_time s) then Inr (s, Info)
     else case finish_locals (s\<lparr>end_time := Some now\<rparr>) now of
            Inl e \<Rightarrow> Inl e
          | Inr l \<Rightarrow>
              Inr (s\<lparr>end_time := Some now,
                     time_label := elapsed l, wpm_label := wpm l, acc_label := accuracy l,
                     running := False\<rparr>,
                   Results (elapsed l) (wpm l) (accuracy l)))"

definition reset :: "tester \<Rightarrow> bool \<Rightarrow> tester" where
  "reset s clear_text =
    s\<lparr>start_time := None, end_time := None, running := False,
      input_entry := (if clear_text then [] else input_entry s),
      time_label := 0, wpm_label := 0, acc_label := 0\<rparr>"

text \<open>
  \<^verbatim>\<open>random.choice(SAMPLE_TEXTS)\<close> draws an index below the length of the list; the
  draw is the parameter \<open>pick\<close>, reduced modulo the length.
\<close>

definition new_text :: "tester \<Rightarrow> nat \<Rightarrow> tester" where
  "new_text s pick =
    (let smp = SAMPLE_TEXTS ! (pick mod length SAMPLE_TEXTS)
     in reset (s\<lparr>sample := smp, sample_text := smp\<rparr>) False)"

text \<open>Lines 116 to 120 of \<^verbatim>\<open>on_key_press\<close>; \<open>now\<close> is the clock read by \<^verbatim>\<open>finish\<close>.\<close>

definition auto_finish :: "tester \<Rightarrow> real \<Rightarrow> error + (tester \<times> popup option)" where
  "auto_finish s now =
    (if length (get_typed_text s) \<ge> length (sample s)
     then (case finish s now of
             Inl e \<Rightarrow> Inl e
           | Inr (s', p) \<Rightarrow> Inr (s', Some p))
     else Inr (s, None))"

text \<open>
  \<^verbatim>\<open>on_key_press\<close>: \<open>ch\<close> is \<^verbatim>\<open>event.char\<close>, \<open>t_start\<close> the clock read at line 109
  and \<open>t_finish\<close> the clock read at line 130 when \<^verbatim>\<open>finish\<close> is called.
\<close>

definition on_key_press ::
    "tester \<Rightarrow> string \<Rightarrow> real \<Rightarrow> real \<Rightarrow> error + (tester \<times> popup option)" where
  "on_key_press s ch t_start t_finish =
    (if \<not> running s
     then (if length ch = 0 then Inr (s, None)
           else auto_finish
                  (s\<lparr>start_time := Some t_start, running := True,
                     time_label := 0, wpm_label := 0, acc_label := 0\<rparr>) t_finish)
     else auto_finish s t_finish)"


subsection \<open>The event loop\<close>

text \<open>
  What \<^verbatim>\<open>root.mainloop()\<close> dispatches: a key event on the input widget, the three
  buttons, and the widget's own editing of its contents between the callbacks.
\<close>

datatype event =
    Key string real real
  | Finish_button real
  | Reset_button
  | New_text_button nat
  | Edit string

fun dispatch :: "tester \<Rightarrow> event \<Rightarrow> error + tester" where
  "dispatch s (Key ch t1 t2) =
     (case on_key_press s ch t1 t2 of Inl e \<Rightarrow> Inl e | Inr (s', p) \<Rightarrow> Inr s')"
| "dispatch s (Finish_button now) =
     (case finish s now of Inl e \<Rightarrow> Inl e | Inr (s', p) \<Rightarrow> Inr s')"
| "dispatch s Reset_button = Inr (reset s True)"
| "dispatch s (New_text_button pick) = Inr (new_text s pick)"
| "dispatch s (Edit txt) = Inr (s\<lparr>input_entry := txt\<rparr>)"


subsection \<open>Events that stay within one typing session\<close>


section \<open>Facts about the helpers\<close>

lemma dropWhile_replicate_newline:
  "dropWhile (\<lambda>c. c = newline) (replicate n newline @ ys) = dropWhile (\<lambda>c. c = newline) ys"
  by (induction n) simp_all

lemma rstrip_newline_append_replicate:
  "rstrip_newline (xs @ replicate n newline) = rstrip_newline xs"
  by (simp add: rstrip_newline_def dropWhile_replicate_newline)

lemma get_typed_text_eq: "get_typed_text s = rstrip_newline (input_entry s)"
  using rstrip_newline_append_replicate [of "input_entry s" 1]
  by (simp add: get_typed_text_def text_get_def)

lemma rstrip_newline_idem: "rstrip_newline (rstrip_newline xs) = rstrip_newline xs"
  by (simp add: rstrip_newline_def)

lemma rstrip_newline_last: "rstrip_newline xs \<noteq> [] \<Longrightarrow> last (rstrip_newline xs) \<noteq> newline"
proof -
  assume ne: "rstrip_newline xs \<noteq> []"
  let ?d = "dropWhile (\<lambda>c. c = newline) (rev xs)"
  from ne have "?d \<noteq> []" by (simp add: rstrip_newline_def)
  then have "hd ?d \<noteq> newline" using hd_dropWhile [of "\<lambda>c. c = newline" "rev xs"] by simp
  moreover have "last (rstrip_newline xs) = hd ?d"
    using \<open>?d \<noteq> []\<close> by (simp add: rstrip_newline_def last_rev)
  ultimately show ?thesis by simp
qed

lemma rstrip_newline_decomp: "\<exists>k. xs = rstrip_newline xs @ replicate k newline"
proof -
  let ?t = "takeWhile (\<lambda>c. c = newline) (rev xs)"
  let ?d = "dropWhile (\<lambda>c. c = newline) (rev xs)"
  have "\<forall>c \<in> set ?t. c = newline" by (auto dest: set_takeWhileD)
  then have t: "?t = replicate (length ?t) newline"
    by (simp add: replicate_length_same)
  have "xs = rev (?t @ ?d)" by (simp only: takeWhile_dropWhile_id rev_rev_ident)
  also have "\<dots> = rev ?d @ rev ?t" by (simp only: rev_append)
  also have "rev ?t = replicate (length ?t) newline" using t by (metis rev_replicate)
  finally have "xs = rstrip_newline xs @ replicate (length ?t) newline"
    by (simp only: rstrip_newline_def)
  then show ?thesis ..
qed

lemma count_loop_filter:
  "count_loop smp i ty acc = acc + length (filter (\<lambda>(a, b). a = b) (zip ty (drop i smp)))"
proof (induction ty arbitrary: i acc)
  case Nil
  show ?case by simp
next
  case (Cons ch rest)
  show ?case
  proof (cases "i < length smp")
    case True
    then have d: "drop i smp = smp ! i # drop (Suc i) smp"
      by (simp add: Cons_nth_drop_Suc)
    show ?thesis using True by (simp add: Cons.IH d)
  next
    case False
    then show ?thesis by (simp add: Cons.IH)
  qed
qed

lemma count_loop_card:
  "count_loop smp 0 ty 0 = card {i. i < length ty \<and> i < length smp \<and> ty ! i = smp ! i}"
proof -
  have "{i. i < length (zip ty smp) \<and> (case zip ty smp ! i of (a, b) \<Rightarrow> a = b)}
        = {i. i < length ty \<and> i < length smp \<and> ty ! i = smp ! i}"
    by auto
  then show ?thesis
    by (simp add: count_loop_filter length_filter_conv_card)
qed

lemma count_loop_le: "count_loop smp 0 ty 0 \<le> min (length ty) (length smp)"
proof -
  have "length (filter (\<lambda>(a, b). a = b) (zip ty smp)) \<le> length (zip ty smp)"
    by (rule length_filter_le)
  then show ?thesis by (simp add: count_loop_filter)
qed

lemma filter_zip_same:
  "length (filter (\<lambda>(a, b). a = b) (zip ty (ty @ zs))) = length ty"
  by (induction ty) simp_all

lemma count_loop_prefix: "prefix ty smp \<Longrightarrow> count_loop smp 0 ty 0 = length ty"
  by (auto simp: prefix_def count_loop_filter filter_zip_same)

lemma finish_locals_eq:
  "finish_locals s now =
    (let el = (if truthy (start_time s) then now - the (start_time s) else 0);
         mi = (if el > 0 then el / 60 else 1 / 10 ^ 9);
         ty = get_typed_text s;
         cc = count_loop (sample s) 0 ty 0
     in Inr \<lparr>elapsed = el, typed = ty, correct_chars = cc, total_typed = length ty,
             minutes = mi, wpm = real cc / 5 / mi,
             accuracy = (if length ty > 0 then real cc / real (length ty) * 100 else 0)\<rparr>)"
  by (simp add: finish_locals_def Let_def py_truediv_def)

lemma finish_locals_end_time [simp]:
  "finish_locals (s\<lparr>end_time := e\<rparr>) now = finish_locals s now"
  by (simp add: finish_locals_def get_typed_text_def)

lemma finish_eq:
  "finish s now =
    (if \<not> running s \<and> \<not> truthy (start_time s) then Inr (s, Info)
     else let l = projr (finish_locals s now)
          in Inr (s\<lparr>end_time := Some now,
                   time_label := elapsed l, wpm_label := wpm l, acc_label := accuracy l,
                   running := False\<rparr>,
                 Results (elapsed l) (wpm l) (accuracy l)))"
  by (simp add: finish_def finish_locals_eq [of s now] Let_def)

section \<open>Counting the correct characters\<close>

text \<open>
  Claim C1. Whenever \<^verbatim>\<open>finish\<close> computes its result, the typed text \<open>T\<close> it
  scores is \<open>get_typed_text\<close>, its \<^verbatim>\<open>correct_chars\<close> is exactly the number of
  positions \<open>i\<close> with \<open>i < len(T)\<close>, \<open>i < len(S)\<close> and \<open>T[i] = S[i]\<close> for the
  sample \<open>S\<close>, and if \<open>T\<close> is a prefix of \<open>S\<close> of length \<open>k\<close> then
  \<^verbatim>\<open>correct_chars\<close> equals \<open>k\<close>.
\<close>

theorem finish_correct_chars_prefix:
  assumes "finish_locals s now = Inr l"
  shows "typed l = get_typed_text s
       \<and> correct_chars l =
           card {i. i < length (typed l) \<and> i < length (sample s) \<and> typed l ! i = sample s ! i}
       \<and> (prefix (typed l) (sample s) \<longrightarrow> correct_chars l = length (typed l))"
proof -
  from assms have l: "typed l = get_typed_text s"
      "correct_chars l = count_loop (sample s) 0 (get_typed_text s) 0"
    by (auto simp: finish_locals_eq Let_def)
  show ?thesis
    using l count_loop_card [of "sample s" "get_typed_text s"]
      count_loop_prefix [of "get_typed_text s" "sample s"]
    by simp
qed

text \<open>
  Claim C10. For every sample and every typed text the \<^verbatim>\<open>correct_chars\<close> computed
  by \<^verbatim>\<open>finish\<close> is at most the minimum of the two lengths, and the accuracy, as
  computed and as reported in the results box, lies between 0 and 100.
\<close>

theorem finish_correct_chars_bounded:
  assumes "finish_locals s now = Inr l"
  shows "correct_chars l \<le> min (length (typed l)) (length (sample s))
       \<and> 0 \<le> accuracy l \<and> accuracy l \<le> 100
       \<and> (\<forall>s' el w a. finish s now = Inr (s', Results el w a) \<longrightarrow> 0 \<le> a \<and> a \<le> 100)"
proof -
  let ?ty = "get_typed_text s"
  let ?cc = "count_loop (sample s) 0 ?ty 0"
  let ?ac = "if length ?ty > 0 then real ?cc / real (length ?ty) * 100 else 0"
  have le: "?cc \<le> min (length ?ty) (length (sample s))" by (rule count_loop_le)
  then have "real ?cc \<le> real (length ?ty)" by simp
  then have ac: "0 \<le> ?ac \<and> ?ac \<le> 100"
    by (simp add: divide_le_eq)
  from assms have l: "typed l = ?ty" "correct_chars l = ?cc" "accuracy l = ?ac"
    by (auto simp: finish_locals_eq Let_def)
  have fin: "\<forall>s' el w a. finish s now = Inr (s', Results el w a) \<longrightarrow> a = accuracy l"
    using assms by (auto simp: finish_eq Let_def split: if_splits)
  have c1: "correct_chars l \<le> min (length (typed l)) (length (sample s))"
    using le l(1,2) by simp
  have c2: "0 \<le> accuracy l \<and> accuracy l \<le> 100"
    unfolding l(3) by (rule ac)
  have c3: "\<forall>s' el w a. finish s now = Inr (s', Results el w a) \<longrightarrow> 0 \<le> a \<and> a \<le> 100"
    using fin c2 by blast
  show ?thesis using c1 c2 c3 by blast
qed


section \<open>Division by zero\<close>


section \<open>Automatic finish\<close>

text \<open>
  Claim C6. For every key event received while \<^verbatim>\<open>running\<close> is true, whatever the
  key, if the typed text is at least as long as the sample then \<^verbatim>\<open>on_key_press\<close>
  finalizes the session at once: it returns what \<^verbatim>\<open>finish\<close> returns, the results
  box is shown, \<^verbatim>\<open>running\<close> is false and \<^verbatim>\<open>end_time\<close> is set. Whether the
  typed characters are correct plays no part: the concrete session given further down
  has a sample of length 10 and 10 typed characters, none of them correct.
\<close>

theorem on_key_press_auto_finish:
  assumes "running s" and "length (sample s) \<le> length (get_typed_text s)"
  shows "\<exists>s' el w a. on_key_press s ch t_start t_finish = Inr (s', Some (Results el w a))
           \<and> finish s t_finish = Inr (s', Results el w a)
           \<and> \<not> running s' \<and> end_time s' = Some t_finish"
  using assms by (simp add: on_key_press_def auto_finish_def finish_eq Let_def)

lemma dispatch_sample:
  assumes "dispatch s ev = Inr s'" and "\<forall>pick. ev \<noteq> New_text_button pick"
  shows "sample s' = sample s"
proof (cases ev)
  case (Key ch t1 t2)
  with assms show ?thesis
    by (auto simp: on_key_press_def auto_finish_def finish_eq Let_def split: if_splits)
next
  case (Finish_button now)
  with assms show ?thesis by (auto simp: finish_eq Let_def split: if_splits)
next
  case Reset_button
  with assms show ?thesis by (auto simp: reset_def)
next
  case (New_text_button pick)
  with assms show ?thesis by simp
next
  case (Edit contents)
  with assms show ?thesis by auto
qed

section \<open>Reset and the sample\<close>

text \<open>
  Claim C8. \<^verbatim>\<open>reset\<close>, in any state, clears \<^verbatim>\<open>start_time\<close>,
  \<^verbatim>\<open>end_time\<close> and \<^verbatim>\<open>running\<close> and leaves \<^verbatim>\<open>sample\<close> unchanged (the
  Reset button also empties the input). No event other than the New Text button changes
  the sample, and New Text sets it to the passage drawn from \<open>SAMPLE_TEXTS\<close>.
\<close>

theorem reset_clears_timing_keeps_sample:
  "start_time (reset s c) = None \<and> end_time (reset s c) = None \<and> \<not> running (reset s c)
   \<and> sample (reset s c) = sample s
   \<and> input_entry (reset s True) = []
   \<and> (\<forall>ev s'. dispatch s ev = Inr s' \<and> (\<forall>pick. ev \<noteq> New_text_button pick)
          \<longrightarrow> sample s' = sample s)
   \<and> sample (new_text s pick) = SAMPLE_TEXTS ! (pick mod length SAMPLE_TEXTS)"
proof -
  have "\<forall>ev s'. dispatch s ev = Inr s' \<and> (\<forall>pick. ev \<noteq> New_text_button pick)
          \<longrightarrow> sample s' = sample s"
    using dispatch_sample by blast
  then show ?thesis by (simp add: reset_def new_text_def Let_def)
qed

lemma get_typed_text_rstrip:
  "get_typed_text (u\<lparr>input_entry := rstrip_newline raw\<rparr>) = get_typed_text (u\<lparr>input_entry := raw\<rparr>)"
  by (simp add: get_typed_text_eq rstrip_newline_idem)

lemma popup_cong:
  assumes "get_typed_text a = get_typed_text b" and "sample a = sample b"
    and "running a = running b" and "start_time a = start_time b"
  shows "finish_locals a now = finish_locals b now"
    and "map_sum id snd (finish a now) = map_sum id snd (finish b now)"
    and "map_sum id snd (auto_finish a now) = map_sum id snd (auto_finish b now)"
proof -
  show l: "finish_locals a now = finish_locals b now"
    using assms by (simp add: finish_locals_eq)
  show "map_sum id snd (finish a now) = map_sum id snd (finish b now)"
    using assms by (simp add: finish_eq l Let_def)
  then show "map_sum id snd (auto_finish a now) = map_sum id snd (auto_finish b now)"
    using assms by (simp add: auto_finish_def finish_eq l Let_def)
qed

lemma on_key_press_popup_rstrip:
  "map_sum id snd (on_key_press (u\<lparr>input_entry := rstrip_newline raw\<rparr>) ch t1 t2)
     = map_sum id snd (on_key_press (u\<lparr>input_entry := raw\<rparr>) ch t1 t2)"
  by (auto simp: on_key_press_def get_typed_text_eq rstrip_newline_idem intro!: popup_cong(3))

section \<open>Trailing newlines\<close>

text \<open>
  Claim C9. The typed text used for scoring and for the automatic finish is the contents
  of the input widget with every trailing newline removed: it does not end in a newline,
  and the contents are the typed text followed by newlines only. For every contents
  \<open>raw\<close>, the typed text, the local variables of \<^verbatim>\<open>finish\<close>, the box shown by
  \<^verbatim>\<open>finish\<close> and the box shown by \<^verbatim>\<open>on_key_press\<close> are the same for \<open>raw\<close>
  and for \<open>raw\<close> with its trailing newlines stripped.
\<close>

theorem typed_text_strips_trailing_newlines:
  "get_typed_text s = rstrip_newline (input_entry s)
   \<and> (get_typed_text s \<noteq> [] \<longrightarrow> last (get_typed_text s) \<noteq> newline)
   \<and> (\<exists>k. input_entry s = get_typed_text s @ replicate k newline)
   \<and> get_typed_text (s\<lparr>input_entry := raw\<rparr>)
       = get_typed_text (s\<lparr>input_entry := rstrip_newline raw\<rparr>)
   \<and> finish_locals (s\<lparr>input_entry := raw\<rparr>) now
       = finish_locals (s\<lparr>input_entry := rstrip_newline raw\<rparr>) now
   \<and> map_sum id snd (finish (s\<lparr>input_entry := raw\<rparr>) now)
       = map_sum id snd (finish (s\<lparr>input_entry := rstrip_newline raw\<rparr>) now)
   \<and> map_sum id snd (on_key_press (s\<lparr>input_entry := raw\<rparr>) ch t1 t2)
       = map_sum id snd (on_key_press (s\<lparr>input_entry := rstrip_newline raw\<rparr>) ch t1 t2)"
proof -
  have g: "get_typed_text (s\<lparr>input_entry := raw\<rparr>)
       = get_typed_text (s\<lparr>input_entry := rstrip_newline raw\<rparr>)"
    by (simp add: get_typed_text_eq rstrip_newline_idem)
  have g': "\<And>u. get_typed_text (u\<lparr>input_entry := raw\<rparr>)
       = get_typed_text (u\<lparr>input_entry := rstrip_newline raw\<rparr>)"
    by (simp add: get_typed_text_eq rstrip_newline_idem)
  have c1: "get_typed_text s = rstrip_newline (input_entry s)" by (rule get_typed_text_eq)
  have c2: "get_typed_text s \<noteq> [] \<longrightarrow> last (get_typed_text s) \<noteq> newline"
    by (simp add: get_typed_text_eq rstrip_newline_last)
  have c3: "\<exists>k. input_entry s = get_typed_text s @ replicate k newline"
    unfolding get_typed_text_eq by (rule rstrip_newline_decomp)
  have c5: "finish_locals (s\<lparr>input_entry := raw\<rparr>) now
       = finish_locals (s\<lparr>input_entry := rstrip_newline raw\<rparr>) now"
    by (rule popup_cong(1)) (simp_all add: get_typed_text_rstrip)
  have c6: "map_sum id snd (finish (s\<lparr>input_entry := raw\<rparr>) now)
       = map_sum id snd (finish (s\<lparr>input_entry := rstrip_newline raw\<rparr>) now)"
    by (rule popup_cong(2)) (simp_all add: get_typed_text_rstrip)
  have c7: "map_sum id snd (on_key_press (s\<lparr>input_entry := raw\<rparr>) ch t1 t2)
       = map_sum id snd (on_key_press (s\<lparr>input_entry := rstrip_newline raw\<rparr>) ch t1 t2)"
    by (rule on_key_press_popup_rstrip [symmetric])
  show ?thesis using g c1 c2 c3 c5 c6 c7 by blast
qed


section \<open>Scenario B\<close>

text \<open>
  Claim C3. With the sample \<open>cat\<close>, the typed text \<open>cxt\<close> and an elapsed time of
  exactly 3 seconds, \<^verbatim>\<open>finish\<close> computes \<^verbatim>\<open>correct_chars\<close> = 2,
  \<^verbatim>\<open>minutes\<close> = 3/60, WPM = (2/5)/(3/60) = 8 and accuracy = 2/3 * 100 = 200/3 per
  cent, which is 66.67 when rounded to two decimals, and shows elapsed time, WPM and
  accuracy in the results box.
\<close>

theorem scenario_cat_cxt_three_seconds:
  assumes "sample s = ''cat''" and "get_typed_text s = ''cxt''"
    and "finish_locals s now = Inr l" and "elapsed l = 3"
  shows "correct_chars l = 2 \<and> minutes l = 3 / 60 \<and> wpm l = 8 \<and> accuracy l = 200 / 3
       \<and> round (accuracy l * 100) = 6667
       \<and> (\<exists>s'. finish s now = Inr (s', Results 3 8 (200 / 3)))"
proof -
  let ?el = "if truthy (start_time s) then now - the (start_time s) else 0"
  from assms(3) have "elapsed l = ?el"
    by (auto simp: finish_locals_eq Let_def)
  with assms(4) have el: "?el = 3" by (simp only:)
  then have tr: "truthy (start_time s)"
    by (auto split: if_splits)
  from assms(1,2,3) el have l: "correct_chars l = 2" "minutes l = 3 / 60" "wpm l = 8"
      "accuracy l = 200 / 3"
    by (auto simp: finish_locals_eq Let_def)
  have "round (accuracy l * 100) = 6667"
    by (simp add: l(4) round_def)
  moreover have "\<exists>s'. finish s now = Inr (s', Results 3 8 (200 / 3))"
    using tr assms(3) assms(4) l by (simp add: finish_eq Let_def)
  ultimately show ?thesis using l by (intro conjI)
qed

section \<open>Elapsed time\<close>

text \<open>
  Claim C4 as stated fails: line 131 takes the plain difference of the two clock readings.
  With \<^verbatim>\<open>start_time\<close> = 10 and the clock at 7, \<^verbatim>\<open>finish\<close> reports an elapsed
  time of \<open>-3\<close>, which is not \<open>max (7 - 10) 0\<close>.
\<close>

theorem finish_elapsed_negative_counterexample:
  "finish \<lparr>start_time = Some 10, end_time = None, running = True, sample = ''a'',
           sample_text = ''a'', input_entry = ''a'',
           time_label = 0, wpm_label = 0, acc_label = 0\<rparr> 7
     = Inr (\<lparr>start_time = Some 10, end_time = Some 7, running = False, sample = ''a'',
             sample_text = ''a'', input_entry = ''a'',
             time_label = - 3, wpm_label = 200000000, acc_label = 100\<rparr>,
            Results (- 3) 200000000 100)
   \<and> (- 3 :: real) \<noteq> max (7 - 10) 0"
  by (simp add: finish_eq finish_locals_eq truthy_def Let_def get_typed_text_eq
      rstrip_newline_def newline_def)

text \<open>
  Claim C4, amended. For every call of \<^verbatim>\<open>finish\<close> that shows results,
  \<^verbatim>\<open>end_time\<close> becomes the clock reading \<open>now\<close>; when \<^verbatim>\<open>start_time\<close> is set to
  a non-zero reading \<open>t\<close> the reported elapsed time is the plain difference
  \<open>now - t\<close>, which is \<open>max (now - t) 0\<close> whenever \<open>t \<le> now\<close>; when
  \<^verbatim>\<open>start_time\<close> is missing it is 0.
\<close>

theorem finish_elapsed_raw_difference:
  assumes "finish s now = Inr (s', Results el w a)"
  shows "end_time s' = Some now
       \<and> (\<forall>t. start_time s = Some t \<and> t \<noteq> 0
              \<longrightarrow> el = now - t \<and> (t \<le> now \<longrightarrow> el = max (now - t) 0))
       \<and> (start_time s = None \<longrightarrow> el = 0)"
  using assms
  by (auto simp: finish_eq finish_locals_eq truthy_def Let_def split: if_splits option.splits)

section \<open>Monotonicity of the WPM\<close>

text \<open>
  Claim C5 as stated fails at the substituted epsilon. For one correct character, an
  elapsed time of 0 gives \<^verbatim>\<open>minutes\<close> = \<open>1e-9\<close> and a WPM of \<open>2e8\<close>, while the larger
  elapsed time \<open>1e-9\<close> gives \<^verbatim>\<open>minutes\<close> = \<open>1e-9 / 60\<close> and the larger WPM
  \<open>1.2e10\<close>.
\<close>

theorem wpm_epsilon_not_monotone_counterexample:
  "finish_locals \<lparr>start_time = Some 1, end_time = None, running = True, sample = ''a'',
           sample_text = ''a'', input_entry = ''a'',
           time_label = 0, wpm_label = 0, acc_label = 0\<rparr> 1
     = Inr \<lparr>elapsed = 0, typed = ''a'', correct_chars = 1, total_typed = 1,
             minutes = 1 / 10 ^ 9, wpm = 200000000, accuracy = 100\<rparr>
   \<and> finish_locals \<lparr>start_time = Some 1, end_time = None, running = True, sample = ''a'',
           sample_text = ''a'', input_entry = ''a'',
           time_label = 0, wpm_label = 0, acc_label = 0\<rparr> (1 + 1 / 10 ^ 9)
     = Inr \<lparr>elapsed = 1 / 10 ^ 9, typed = ''a'', correct_chars = 1, total_typed = 1,
             minutes = 1 / (60 * 10 ^ 9), wpm = 12000000000, accuracy = 100\<rparr>
   \<and> (0 :: real) \<le> 1 / 10 ^ 9
   \<and> \<not> ((12000000000 :: real) \<le> 200000000)"
  by (simp add: finish_locals_eq truthy_def Let_def get_typed_text_eq
      rstrip_newline_def newline_def)

text \<open>
  Claim C5, amended. For a fixed \<^verbatim>\<open>correct_chars\<close> > 0 the WPM computed by
  \<^verbatim>\<open>finish\<close> does not increase when the elapsed time increases, provided the
  smaller elapsed time is positive or the larger one is at least \<open>6e-8\<close> seconds (the
  elapsed time whose \<^verbatim>\<open>minutes\<close> equal the substituted \<open>1e-9\<close>).
\<close>

theorem wpm_monotone_positive_elapsed:
  assumes "finish_locals s1 now1 = Inr l1" and "finish_locals s2 now2 = Inr l2"
    and "correct_chars l1 = correct_chars l2" and "0 < correct_chars l1"
    and "elapsed l1 \<le> elapsed l2"
    and "0 < elapsed l1 \<or> 6 / 10 ^ 8 \<le> elapsed l2"
  shows "wpm l2 \<le> wpm l1"
proof -
  let ?m = "\<lambda>el::real. if el > 0 then el / 60 else 1 / 10 ^ 9"
  from assms(1) have w1: "wpm l1 = real (correct_chars l1) / 5 / ?m (elapsed l1)"
    by (auto simp: finish_locals_eq Let_def)
  from assms(2) have w2: "wpm l2 = real (correct_chars l2) / 5 / ?m (elapsed l2)"
    by (auto simp: finish_locals_eq Let_def)
  have pos: "0 < ?m (elapsed l1)" by simp
  have le: "?m (elapsed l1) \<le> ?m (elapsed l2)"
    using assms(5,6) by (auto split: if_splits)
  have "real (correct_chars l2) / 5 / ?m (elapsed l2) \<le> real (correct_chars l2) / 5 / ?m (elapsed l1)"
    using pos le by (intro divide_left_mono) (auto intro: mult_pos_pos)
  then show ?thesis using w1 w2 assms(3) by simp
qed







section \<open>Finishing before and after the first keystroke\<close>



text \<open>The theorem at a concrete session.\<close>

theorem finish_correct_chars_prefix_witness:
  "finish_locals
     \<lparr>start_time = Some 100, end_time = None, running = True, sample = ''cat'',
       sample_text = ''cat'', input_entry = ''ca'',
       time_label = 0, wpm_label = 0, acc_label = 0\<rparr> 106
   = Inr \<lparr>elapsed = 6, typed = ''ca'', correct_chars = 2, total_typed = 2,
          minutes = 1 / 10, wpm = 4, accuracy = 100\<rparr>
   \<and> prefix ''ca'' ''cat''
   \<and> (2 :: nat) = length ''ca''"
proof -
  let ?s = "\<lparr>start_time = Some 100, end_time = None, running = True, sample = ''cat'',
       sample_text = ''cat'', input_entry = ''ca'',
       time_label = 0, wpm_label = 0, acc_label = 0\<rparr>"
  let ?l = "\<lparr>elapsed = 6, typed = ''ca'', correct_chars = 2, total_typed = 2,
          minutes = 1 / 10, wpm = 4, accuracy = 100 :: real\<rparr>"
  have h: "finish_locals ?s 106 = Inr ?l"
    by (simp add: finish_locals_eq truthy_def Let_def get_typed_text_eq
        rstrip_newline_def newline_def)
  have p: "prefix ''ca'' ''cat''" by simp
  from finish_correct_chars_prefix [OF h] p have "correct_chars ?l = length (typed ?l)"
    by simp
  with h p show ?thesis by simp
qed

text \<open>The theorem at a concrete session.\<close>

theorem finish_correct_chars_bounded_witness:
  "finish_locals
     \<lparr>start_time = Some 100, end_time = None, running = True, sample = ''cat'',
       sample_text = ''cat'', input_entry = ''cxt'',
       time_label = 0, wpm_label = 0, acc_label = 0\<rparr> 103
   = Inr \<lparr>elapsed = 3, typed = ''cxt'', correct_chars = 2, total_typed = 3,
          minutes = 1 / 20, wpm = 8, accuracy = 200 / 3\<rparr>
   \<and> (2 :: nat) \<le> min 3 3 \<and> (0 :: real) \<le> 200 / 3 \<and> (200 / 3 :: real) \<le> 100"
proof -
  let ?s = "\<lparr>start_time = Some 100, end_time = None, running = True, sample = ''cat'',
       sample_text = ''cat'', input_entry = ''cxt'',
       time_label = 0, wpm_label = 0, acc_label = 0\<rparr>"
  let ?l = "\<lparr>elapsed = 3, typed = ''cxt'', correct_chars = 2, total_typed = 3,
          minutes = 1 / 20, wpm = 8, accuracy = 200 / 3 :: real\<rparr>"
  have h: "finish_locals ?s 103 = Inr ?l"
    by (simp add: finish_locals_eq truthy_def Let_def get_typed_text_eq
        rstrip_newline_def newline_def)
  from finish_correct_chars_bounded [OF h] h show ?thesis by simp
qed

text \<open>The theorem at a concrete session.\<close>

theorem scenario_cat_cxt_three_seconds_witness:
  "finish_locals
     \<lparr>start_time = Some 100, end_time = None, running = True, sample = ''cat'',
       sample_text = ''cat'', input_entry = ''cxt'',
       time_label = 0, wpm_label = 0, acc_label = 0\<rparr> 103
   = Inr \<lparr>elapsed = 3, typed = ''cxt'', correct_chars = 2, total_typed = 3,
          minutes = 1 / 20, wpm = 8, accuracy = 200 / 3 :: real\<rparr>
   \<and> (\<exists>s'. finish
     \<lparr>start_time = Some 100, end_time = None, running = True, sample = ''cat'',
       sample_text = ''cat'', input_entry = ''cxt'',
       time_label = 0, wpm_label = 0, acc_label = 0\<rparr> 103
     = Inr (s', Results 3 8 (200 / 3)))"
proof -
  let ?s = "\<lparr>start_time = Some 100, end_time = None, running = True, sample = ''cat'',
       sample_text = ''cat'', input_entry = ''cxt'',
       time_label = 0, wpm_label = 0, acc_label = 0\<rparr>"
  let ?l = "\<lparr>elapsed = 3, typed = ''cxt'', correct_chars = 2, total_typed = 3,
          minutes = 1 / 20, wpm = 8, accuracy = 200 / 3 :: real\<rparr>"
  have h: "finish_locals ?s 103 = Inr ?l"
    by (simp add: finish_locals_eq truthy_def Let_def get_typed_text_eq
        rstrip_newline_def newline_def)
  have g: "sample ?s = ''cat''" "get_typed_text ?s = ''cxt''" "elapsed ?l = 3"
    by (simp_all add: get_typed_text_eq rstrip_newline_def newline_def)
  have "\<exists>s'. finish ?s 103 = Inr (s', Results 3 8 (200 / 3))"
    by (rule scenario_cat_cxt_three_seconds [OF g(1,2) h g(3), THEN conjunct2, THEN conjunct2,
          THEN conjunct2, THEN conjunct2, THEN conjunct2])
  then show ?thesis by (intro conjI h)
qed

text \<open>The theorem at a concrete session.\<close>

theorem on_key_press_auto_finish_witness:
  "length ''0123456789'' = 10 \<and> length ''abcdefghij'' = 10
   \<and> on_key_press
     \<lparr>start_time = Some 100, end_time = None, running = True, sample = ''0123456789'',
       sample_text = ''0123456789'', input_entry = ''abcdefghij'',
       time_label = 0, wpm_label = 0, acc_label = 0\<rparr> ''j'' 200 110
   = Inr (\<lparr>start_time = Some 100, end_time = Some 110, running = False,
            sample = ''0123456789'', sample_text = ''0123456789'', input_entry = ''abcdefghij'',
            time_label = 10, wpm_label = 0, acc_label = 0\<rparr>, Some (Results 10 0 0))"
proof -
  let ?s = "\<lparr>start_time = Some 100, end_time = None, running = True, sample = ''0123456789'',
       sample_text = ''0123456789'', input_entry = ''abcdefghij'',
       time_label = 0, wpm_label = 0, acc_label = 0\<rparr>"
  have h: "running ?s" "length (sample ?s) \<le> length (get_typed_text ?s)"
    by (simp_all add: get_typed_text_eq rstrip_newline_def newline_def)
  have f: "finish ?s 110 = Inr (\<lparr>start_time = Some 100, end_time = Some 110, running = False,
            sample = ''0123456789'', sample_text = ''0123456789'', input_entry = ''abcdefghij'',
            time_label = 10, wpm_label = 0, acc_label = 0\<rparr>, Results 10 0 0)"
    by (simp add: finish_eq finish_locals_eq truthy_def Let_def get_typed_text_eq
        rstrip_newline_def newline_def)
  from on_key_press_auto_finish [OF h, of "''j''" 200 110] f show ?thesis by auto
qed



text \<open>The theorem at a concrete session.\<close>

theorem finish_elapsed_raw_difference_witness:
  "finish
     \<lparr>start_time = Some 100, end_time = None, running = True, sample = ''cat'',
       sample_text = ''cat'', input_entry = ''cxt'',
       time_label = 0, wpm_label = 0, acc_label = 0\<rparr> 103
   = Inr (\<lparr>start_time = Some 100, end_time = Some 103, running = False, sample = ''cat'',
       sample_text = ''cat'', input_entry = ''cxt'',
       time_label = 3, wpm_label = 8, acc_label = 200 / 3\<rparr>, Results 3 8 (200 / 3))
   \<and> (100 :: real) \<noteq> 0 \<and> (100 :: real) \<le> 103 \<and> (3 :: real) = max (103 - 100) 0"
proof -
  let ?s = "\<lparr>start_time = Some 100, end_time = None, running = True, sample = ''cat'',
       sample_text = ''cat'', input_entry = ''cxt'',
       time_label = 0, wpm_label = 0, acc_label = 0\<rparr>"
  let ?s' = "\<lparr>start_time = Some 100, end_time = Some 103, running = False, sample = ''cat'',
       sample_text = ''cat'', input_entry = ''cxt'',
       time_label = 3, wpm_label = 8, acc_label = 200 / 3\<rparr>"
  have h: "finish ?s 103 = Inr (?s', Results 3 8 (200 / 3))"
    by (simp add: finish_eq finish_locals_eq truthy_def Let_def get_typed_text_eq
        rstrip_newline_def newline_def)
  have "(3 :: real) = 103 - 100 \<and> ((100 :: real) \<le> 103 \<longrightarrow> (3 :: real) = max (103 - 100) 0)"
    by (rule finish_elapsed_raw_difference [OF h, THEN conjunct2, THEN conjunct1,
          rule_format, of 100]) simp
  then have "(3 :: real) = max (103 - 100) 0" by simp
  then show ?thesis by (intro conjI h) simp_all
qed

text \<open>The theorem at a concrete session.\<close>

theorem wpm_monotone_positive_elapsed_witness:
  "finish_locals
     \<lparr>start_time = Some 100, end_time = None, running = True, sample = ''cat'',
       sample_text = ''cat'', input_entry = ''cxt'',
       time_label = 0, wpm_label = 0, acc_label = 0\<rparr> 103
   = Inr \<lparr>elapsed = 3, typed = ''cxt'', correct_chars = 2, total_typed = 3,
          minutes = 1 / 20, wpm = 8, accuracy = 200 / 3\<rparr>
   \<and> finish_locals
     \<lparr>start_time = Some 100, end_time = None, running = True, sample = ''cat'',
       sample_text = ''cat'', input_entry = ''cxt'',
       time_label = 0, wpm_label = 0, acc_label = 0\<rparr> 106
   = Inr \<lparr>elapsed = 6, typed = ''cxt'', correct_chars = 2, total_typed = 3,
          minutes = 1 / 10, wpm = 4, accuracy = 200 / 3\<rparr>
   \<and> (4 :: real) \<le> 8"
proof -
  let ?s = "\<lparr>start_time = Some 100, end_time = None, running = True, sample = ''cat'',
       sample_text = ''cat'', input_entry = ''cxt'',
       time_label = 0, wpm_label = 0, acc_label = 0\<rparr>"
  let ?l1 = "\<lparr>elapsed = 3, typed = ''cxt'', correct_chars = 2, total_typed = 3,
          minutes = 1 / 20, wpm = 8, accuracy = 200 / 3 :: real\<rparr>"
  let ?l2 = "\<lparr>elapsed = 6, typed = ''cxt'', correct_chars = 2, total_typed = 3,
          minutes = 1 / 10, wpm = 4, accuracy = 200 / 3 :: real\<rparr>"
  have h1: "finish_locals ?s 103 = Inr ?l1"
    by (simp add: finish_locals_eq truthy_def Let_def get_typed_text_eq
        rstrip_newline_def newline_def)
  have h2: "finish_locals ?s 106 = Inr ?l2"
    by (simp add: finish_locals_eq truthy_def Let_def get_typed_text_eq
        rstrip_newline_def newline_def)
  have "wpm ?l2 \<le> wpm ?l1"
    by (rule wpm_monotone_positive_elapsed [OF h1 h2]) simp_all
  with h1 h2 show ?thesis by simp
qed

text \<open>The theorem at a concrete session.\<close>

theorem reset_clears_timing_keeps_sample_witness:
  "reset \<lparr>start_time = Some 100, end_time = Some 103, running = False, sample = ''cat'',
       sample_text = ''cat'', input_entry = ''cxt'',
       time_label = 3, wpm_label = 8, acc_label = 200 / 3\<rparr> True
   = \<lparr>start_time = None, end_time = None, running = False, sample = ''cat'',
       sample_text = ''cat'', input_entry = [],
       time_label = 0, wpm_label = 0, acc_label = 0\<rparr>
   \<and> dispatch
       \<lparr>start_time = Some 100, end_time = None, running = True, sample = ''cat'',
       sample_text = ''cat'', input_entry = ''cxt'',
       time_label = 0, wpm_label = 0, acc_label = 0\<rparr> (Finish_button 103)
     = Inr \<lparr>start_time = Some 100, end_time = Some 103, running = False, sample = ''cat'',
       sample_text = ''cat'', input_entry = ''cxt'',
       time_label = 3, wpm_label = 8, acc_label = 200 / 3\<rparr>"
proof -
  let ?s = "\<lparr>start_time = Some 100, end_time = None, running = True, sample = ''cat'',
       sample_text = ''cat'', input_entry = ''cxt'',
       time_label = 0, wpm_label = 0, acc_label = 0\<rparr>"
  let ?s' = "\<lparr>start_time = Some 100, end_time = Some 103, running = False, sample = ''cat'',
       sample_text = ''cat'', input_entry = ''cxt'',
       time_label = 3, wpm_label = 8, acc_label = 200 / 3\<rparr>"
  have "finish ?s 103 = Inr (?s', Results 3 8 (200 / 3))"
    by (simp add: finish_eq finish_locals_eq truthy_def Let_def get_typed_text_eq
        rstrip_newline_def newline_def)
  then have d: "dispatch ?s (Finish_button 103) = Inr ?s'"
    by simp
  note keep = reset_clears_timing_keeps_sample [of ?s True 0,
      THEN conjunct2, THEN conjunct2, THEN conjunct2, THEN conjunct2, THEN conjunct2,
      THEN conjunct1, rule_format, of "Finish_button 103" ?s']
  have "sample ?s' = sample ?s"
    by (rule keep) (intro conjI allI d, simp)
  moreover have "start_time (reset ?s' True) = None"
    by (rule reset_clears_timing_keeps_sample [of ?s' True 0, THEN conjunct1])
  ultimately show ?thesis by (intro conjI d) (simp add: reset_def)
qed

text \<open>The theorem at a concrete session.\<close>

theorem typed_text_strips_trailing_newlines_witness:
  "get_typed_text
     \<lparr>start_time = Some 100, end_time = None, running = True, sample = ''cat'',
       sample_text = ''cat'', input_entry = [CHR ''c'', CHR ''x'', CHR ''t'', newline, newline],
       time_label = 0, wpm_label = 0, acc_label = 0\<rparr> = ''cxt''
   \<and> finish_locals
     \<lparr>start_time = Some 100, end_time = None, running = True, sample = ''cat'',
       sample_text = ''cat'', input_entry = [CHR ''c'', CHR ''x'', CHR ''t'', newline, newline],
       time_label = 0, wpm_label = 0, acc_label = 0\<rparr> 103
     = finish_locals
     \<lparr>start_time = Some 100, end_time = None, running = True, sample = ''cat'',
       sample_text = ''cat'', input_entry = ''cxt'',
       time_label = 0, wpm_label = 0, acc_label = 0\<rparr> 103"
proof -
  let ?s = "\<lparr>start_time = Some 100, end_time = None, running = True, sample = ''cat'',
       sample_text = ''cat'', input_entry = [CHR ''c'', CHR ''x'', CHR ''t'', newline, newline],
       time_label = 0, wpm_label = 0, acc_label = 0\<rparr>"
  let ?raw = "[CHR ''c'', CHR ''x'', CHR ''t'', newline, newline]"
  have r: "rstrip_newline ?raw = ''cxt''"
    by (simp add: rstrip_newline_def newline_def)
  note strip = typed_text_strips_trailing_newlines [of ?s ?raw 103]
  have g: "get_typed_text ?s = rstrip_newline (input_entry ?s)"
    by (rule strip [THEN conjunct1])
  have "finish_locals (?s\<lparr>input_entry := ?raw\<rparr>) 103
       = finish_locals (?s\<lparr>input_entry := rstrip_newline ?raw\<rparr>) 103"
    by (rule strip [THEN conjunct2, THEN conjunct2, THEN conjunct2, THEN conjunct2,
          THEN conjunct1])
  then show ?thesis using r g by simp
qed


end
